theory Spec2Isabelle
  imports Main
begin

text \<open>
  The deploy command of the VAF command-line client (\<open>commands/deploy\<close>, the file
  \<open>src/unnamed/part_004\<close>) and the helpers of \<open>utils\<close> it calls
  (\<open>src/unnamed/part_003\<close>), as functions of what they are given and of the answers of
  their environment: the files of the working directory, the YAML parser, the shell, the
  archiver, the backend and the clock.
\<close>

section \<open>JavaScript strings and values\<close>

text \<open>
  A JavaScript string is modelled as a \<open>string\<close> (a list of characters, each standing for
  one code unit below 256). A value that may be \<open>undefined\<close> is an \<open>option\<close>.
  The source tests such values for truthiness (\<open>if (x)\<close>, \<open>x || y\<close>, \<open>!x\<close>): a string is
  truthy when it is defined and not empty.
\<close>

definition truthy :: "string option \<Rightarrow> bool" where
  "truthy v = (case v of None \<Rightarrow> False | Some s \<Rightarrow> s \<noteq> [])"

text \<open>\<open>a || b\<close> on possibly undefined strings: \<open>a\<close> when it is truthy, else \<open>b\<close>.\<close>

definition js_or :: "string option \<Rightarrow> string option \<Rightarrow> string option" where
  "js_or a b = (if truthy a then a else b)"

text \<open>\<open>a || 'literal'\<close>: the result is always a string.\<close>

definition js_or_default :: "string option \<Rightarrow> string \<Rightarrow> string" where
  "js_or_default a d = (case a of None \<Rightarrow> d | Some s \<Rightarrow> if s \<noteq> [] then s else d)"

text \<open>
  Whitespace as \<open>String.prototype.trim\<close> sees it, among the code units below 256:
  tab, line feed, vertical tab, form feed, carriage return, space, no-break space.
\<close>

definition is_space :: "char \<Rightarrow> bool" where
  "is_space c = (c = CHR 0x09 \<or> c = CHR 0x0A \<or> c = CHR 0x0B \<or> c = CHR 0x0C
                 \<or> c = CHR 0x0D \<or> c = CHR 0x20 \<or> c = CHR 0xA0)"

definition trim :: "string \<Rightarrow> string" where
  "trim s = rev (dropWhile is_space (rev (dropWhile is_space s)))"

text \<open>\<open>s.startsWith(p)\<close> and \<open>s.includes(p)\<close>.\<close>

definition startsWith :: "string \<Rightarrow> string \<Rightarrow> bool" where
  "startsWith s p = (take (length p) s = p)"

fun includes_str :: "string \<Rightarrow> string \<Rightarrow> bool" where
  "includes_str [] p = (p = [])"
| "includes_str (c # cs) p = (startsWith (c # cs) p \<or> includes_str cs p)"

text \<open>
  \<open>s.split(sep)\<close> for a one-character separator: always at least one piece, and one more
  piece than there are separators.
\<close>

fun split_str :: "char \<Rightarrow> string \<Rightarrow> string list" where
  "split_str sep [] = [[]]"
| "split_str sep (c # cs) =
     (if c = sep then [] # split_str sep cs
      else (case split_str sep cs of
              [] \<Rightarrow> [[c]]
            | piece # pieces \<Rightarrow> (c # piece) # pieces))"

text \<open>\<open>pieces.join(sep)\<close>, the inverse of \<open>split_str\<close>.\<close>

fun join_str :: "char \<Rightarrow> string list \<Rightarrow> string" where
  "join_str sep [] = []"
| "join_str sep [p] = p"
| "join_str sep (p # q # ps) = p @ sep # join_str sep (q # ps)"

text \<open>\<open>xs.slice(-n)\<close>: the last \<open>n\<close> elements (all of them when there are fewer).\<close>

definition slice_last :: "nat \<Rightarrow> 'a list \<Rightarrow> 'a list" where
  "slice_last n xs = drop (length xs - n) xs"

text \<open>Decimal rendering of numbers, as template literals and \<open>toString()\<close> produce it.\<close>

fun show_nat :: "nat \<Rightarrow> string" where
  "show_nat n =
     (if n < 10 then [''0123456789'' ! n]
      else show_nat (n div 10) @ [''0123456789'' ! (n mod 10)])"

definition show_int :: "int \<Rightarrow> string" where
  "show_int i = (if i < 0 then CHR ''-'' # show_nat (nat (- i)) else show_nat (nat i))"

section \<open>The working directory\<close>

text \<open>
  The files of the working directory, by name, with their contents. \<open>fs.existsSync\<close> is
  definedness, \<open>fs.readFileSync\<close> the lookup, \<open>fs.unlinkSync\<close> the removal of the entry.
  \<open>path.join(cwd, name)\<close> is the entry \<open>name\<close> of this map.
\<close>

type_synonym directory = "string \<rightharpoonup> string"

section \<open>utils: readVafIgnore and zipDirectory\<close>

text \<open>
  \<^verbatim>\<open>
  export async function readVafIgnore(dirPath: string): Promise<string[]> {
    const ignoreFile = path.join(dirPath, '.vafignore');
    if (!fs.existsSync(ignoreFile)) {
      return ['node_modules/**', '.git/**', '*.log', '.env', '.DS_Store'];
    }
    const content = fs.readFileSync(ignoreFile, 'utf-8');
    const patterns = content
      .split('\n')
      .map((line) => line.trim())
      .filter((line) => line && !line.startsWith('#'));
    return patterns;
  }
  \<close>
\<close>

definition readVafIgnore :: "directory \<Rightarrow> string list" where
  "readVafIgnore dir =
     (case dir ''.vafignore'' of
        None \<Rightarrow> [''node_modules/**'', ''.git/**'', ''*.log'', ''.env'', ''.DS_Store'']
      | Some content \<Rightarrow>
          filter (\<lambda>line. line \<noteq> [] \<and> \<not> startsWith line ''#'')
            (map trim (split_str (CHR 0x0A) content)))"

text \<open>
  The reading of the ignore file as the specification words it: of the lines of the file,
  those that are blank (nothing but whitespace) and those that are comments (a \<open>#\<close> first,
  after the surrounding whitespace) are left out; the others are taken, trimmed, in order.
\<close>

definition blank_line :: "string \<Rightarrow> bool" where
  "blank_line l = list_all is_space l"

definition comment_line :: "string \<Rightarrow> bool" where
  "comment_line l = (case dropWhile is_space l of [] \<Rightarrow> False | c # _ \<Rightarrow> c = CHR ''#'')"

definition spec_patterns :: "string \<Rightarrow> string list" where
  "spec_patterns content =
     map trim (filter (\<lambda>l. \<not> blank_line l \<and> \<not> comment_line l) (split_str (CHR 0x0A) content))"

text \<open>
  The built-in default set as the specification lists it: version-control directory, logs,
  env files, OS metadata file (written with the source's own patterns for these four).
\<close>

definition spec_default_patterns :: "string list" where
  "spec_default_patterns = [''.git/**'', ''*.log'', ''.env'', ''.DS_Store'']"

text \<open>
  \<open>zipDirectory(dirPath, outputPath, ignorePatterns)\<close> hands the archiver one of two requests:
  \<^verbatim>\<open>
    if (ignorePatterns && ignorePatterns.length > 0) {
      archive.glob('**/*', { cwd: dirPath, ignore: ignorePatterns });
    } else {
      archive.directory(dirPath, false);
    }
  \<close>
  What the archiver then writes is the environment's; the request is the program's.
\<close>

datatype archive_call = Glob "string list" | Directory

definition zipDirectory :: "string list \<Rightarrow> archive_call" where
  "zipDirectory ignorePatterns =
     (if ignorePatterns \<noteq> [] then Glob ignorePatterns else Directory)"

text \<open>The outcome of the archiver: the bytes written, or an error and what it left behind.\<close>

datatype zip_result = Written string | ZipFailed string "string option"

section \<open>commands/deploy: data\<close>

text \<open>
  What the command prints and asks of its environment, in order. The colouring of
  \<open>chalk\<close> and the glyphs that \<open>utils\<close> puts before a message are left out.
\<close>

datatype event =
    ErrorLine string
  | InfoLine string
  | WarnLine string
  | SuccessLine string
  | ConsoleLog string
  | ConsoleError string
  | Sleep nat
  | ApiGet string
  | ApiPost string
  | HttpPut string

text \<open>\<open>interface DeployOptions\<close>, with \<open>options['no-build']\<close> as the action reads it.\<close>

record DeployOptions =
  opt_memory :: "int option"
  opt_timeout :: "int option"
  opt_database :: "string option"
  opt_cache :: "string option"
  opt_storage :: "string option"
  opt_runtime :: "string option"
  opt_handler :: "string option"
  opt_watch :: bool
  opt_no_build :: bool

text \<open>
  One entry of \<open>environments\<close> in the project file. \<open>yaml.load\<close> returns the document as it
  is, so an entry carries whatever keys the file gives it; \<open>env_handler\<close> is the
  \<open>handler\<close> key, which the \<open>VafConfig\<close> interface of this command does not declare and
  which \<open>deploy\<close> never reads.
\<close>

record EnvConfig =
  env_runtime :: "string option"
  env_memory :: "int option"
  env_timeout :: "int option"
  env_database :: "string option"
  env_cache :: "string option"
  env_storage :: "string option"
  env_handler :: "string option"
  env_build :: "string list option"
  env_deploy :: "string list option"

text \<open>
  The document that \<open>yaml.load\<close> returns, cast to \<open>interface VafConfig\<close> without a check:
  a key the file does not give is \<open>undefined\<close> (\<open>None\<close>). \<open>environments\<close>, when given,
  is the object's own keys in the order of \<open>Object.keys\<close>, each with its entry; an entry
  with no body (\<open>production:\<close> and nothing under it) is \<open>null\<close> (\<open>None\<close>).
\<close>

record VafConfig =
  cfg_id :: "int option"
  cfg_name :: "string option"
  environments :: "(string \<times> EnvConfig option) list option"

text \<open>
  \<open>environments[name]\<close> reads a property of a plain object: an own key gives its entry,
  and a name that every object inherits from \<open>Object.prototype\<close> gives the inherited
  function or object, which is truthy and has none of the fields of an entry.
\<close>

definition inherited_names :: "string list" where
  "inherited_names =
     [''constructor'', ''__defineGetter__'', ''__defineSetter__'', ''hasOwnProperty'',
      ''__lookupGetter__'', ''__lookupSetter__'', ''isPrototypeOf'', ''propertyIsEnumerable'',
      ''toString'', ''valueOf'', ''__proto__'', ''toLocaleString'']"

definition inherited_value :: EnvConfig where
  "inherited_value =
     \<lparr> env_runtime = None, env_memory = None, env_timeout = None, env_database = None,
       env_cache = None, env_storage = None, env_handler = None, env_build = None,
       env_deploy = None \<rparr>"

definition lookup_environment :: "(string \<times> EnvConfig option) list \<Rightarrow> string \<Rightarrow> EnvConfig option" where
  "lookup_environment envs name =
     (case map_of envs name of
        Some entry \<Rightarrow> entry
      | None \<Rightarrow> if name \<in> set inherited_names then Some inherited_value else None)"

text \<open>The release payload, \<open>deploymentParams\<close>: an absent key is \<open>None\<close>.\<close>

record DeploymentParams =
  deploymentKey :: string
  runtime :: string
  handler :: string
  memory :: "int option"
  timeout :: "int option"
  database :: "string option"
  cache :: "string option"
  storage :: "string option"

text \<open>
  The answer to \<open>GET .../deployment/upload-url\<close>. The backend's answer may carry a
  storage key; the command declares the answer as \<open>{ uploadUrl: string }\<close> and reads
  \<open>uploadUrl\<close> only.
\<close>

record UploadUrlResponse =
  uploadUrl :: string
  key :: "string option"

text \<open>The answer to \<open>POST .../deployment/deploy\<close>, and the release record that polling reads.\<close>

record Deployment =
  dep_id :: "string option"

record Release =
  status :: string
  logs :: "string option"
  url :: "string option"

text \<open>
  Everything the command takes from outside: the working directory, the YAML parser
  (\<open>Inl\<close> is the exception it throws, \<open>Inr None\<close> the \<open>undefined\<close> it returns for an
  empty file), the stored token, the clock, the shell
  (\<open>Inl\<close>: the command failed; \<open>Inr\<close>: its stderr), the archiver, \<open>formatBytes\<close>
  (floating point, taken as given) and the backend's answers (\<open>Inl\<close> is the message of
  the error thrown). \<open>fetch path n\<close> is the answer to the \<open>n\<close>-th status request.
\<close>

record World =
  cwd :: directory
  yaml_load :: "string \<Rightarrow> string + VafConfig option"
  token :: "string option"
  now :: nat
  exec :: "string \<Rightarrow> string + string"
  archiver :: "archive_call \<Rightarrow> zip_result"
  formatBytes :: "nat \<Rightarrow> string"
  upload_url :: "string \<Rightarrow> string + UploadUrlResponse"
  put :: "string \<Rightarrow> string \<Rightarrow> string + unit"
  post :: "string \<Rightarrow> DeploymentParams \<Rightarrow> string + Deployment"
  fetch :: "string \<Rightarrow> nat \<Rightarrow> string + Release"

text \<open>
  How a run ends: it returns, it calls \<open>process.exit(code)\<close>, or it throws.
  \<open>process.exit\<close> takes the exit code and nothing else. With \<open>--watch\<close> the action
  of the command returns once the watcher is set up, and runs of \<open>deploy\<close> start from
  the timer (\<open>Watching\<close>).
\<close>

datatype outcome = Returned | Exited nat | Threw string | Watching

record Result =
  outcome :: outcome
  final_dir :: directory
  archived :: "archive_call option"
  posted :: "DeploymentParams option"
  log :: "event list"

text \<open>
  What the body of the \<open>try\<close> in \<open>deploy\<close> has done when it is left: the error thrown if
  any, the directory as it stands (before the \<open>finally\<close>), the request handed to the
  archiver, the payload handed to \<open>api.post\<close> if that call was reached, and the lines.
\<close>

record Attempt =
  thrown :: "string option"
  left_dir :: directory
  handed :: archive_call
  sent :: "DeploymentParams option"
  printed :: "event list"

text \<open>
  A step that may end the run: \<open>process.exit(1)\<close> after the lines given, or an error
  thrown (a \<open>TypeError\<close>, with its message), or the run goes on.
\<close>

datatype 'a step = Exit "event list" | Throws string | Proceed 'a

definition dquote :: string where
  "dquote = [CHR 0x22]"

definition squote :: string where
  "squote = [CHR 0x27]"

section \<open>commands/deploy: loadVafConfig\<close>

text \<open>
  \<^verbatim>\<open>
  function loadVafConfig(cwd: string): VafConfig | null {
    const configFiles = ['vaf.yml', 'vapor.yml'];
    for (const configFile of configFiles) {
      const filePath = path.join(cwd, configFile);
      if (fs.existsSync(filePath)) {
        try {
          const content = fs.readFileSync(filePath, 'utf-8');
          return yaml.load(content) as VafConfig;
        } catch (error) {
          utils.error(`Failed to parse ${configFile}: ${error}`);
          return null;
        }
      }
    }
    return null;
  }
  \<close>
  The result comes with the lines printed.
\<close>

fun loadVafConfig_loop ::
  "(string \<Rightarrow> string + VafConfig option) \<Rightarrow> directory \<Rightarrow> string list
     \<Rightarrow> VafConfig option \<times> event list"
where
  "loadVafConfig_loop yaml d [] = (None, [])"
| "loadVafConfig_loop yaml d (configFile # configFiles) =
     (case d configFile of
        None \<Rightarrow> loadVafConfig_loop yaml d configFiles
      | Some content \<Rightarrow>
          (case yaml content of
             Inr document \<Rightarrow> (document, [])
           | Inl err \<Rightarrow>
               (None, [ErrorLine (''Failed to parse '' @ configFile @ '': '' @ err)])))"

definition loadVafConfig ::
  "(string \<Rightarrow> string + VafConfig option) \<Rightarrow> directory \<Rightarrow> VafConfig option \<times> event list"
where
  "loadVafConfig yaml d = loadVafConfig_loop yaml d [''vaf.yml'', ''vapor.yml'']"

section \<open>commands/deploy: project and environment\<close>

text \<open>
  \<^verbatim>\<open>
        let finalProjectId = projectId;
        let finalEnvName = envName;
        if (vafConfig) {
          if (!finalProjectId) {
            finalProjectId = vafConfig.id.toString();
          }
          if (!finalEnvName && Object.keys(vafConfig.environments).length > 0) {
            utils.error('Environment name is required. Available environments:');
            Object.keys(vafConfig.environments).forEach(env => {
              console.log(chalk.cyan(`  - ${env}`));
            });
            process.exit(1);
          }
        }
        if (!finalProjectId || !finalEnvName) {
          utils.error('Project ID and environment name are required');
          utils.info('Either provide them as arguments or configure vaf.yml');
          process.exit(1);
        }
        const envConfig = vafConfig?.environments[finalEnvName];
        if (!envConfig && vafConfig) {
          utils.error(`Environment "${finalEnvName}" not found in vaf.yml`);
          utils.info('Available environments:');
          Object.keys(vafConfig.environments).forEach(env => {
            console.log(chalk.cyan(`  - ${env}`));
          });
          process.exit(1);
        }
  \<close>
  A failure here is \<open>process.exit(1)\<close> after the lines printed, or a \<open>TypeError\<close> where
  the document lacks the key that is read: \<open>vafConfig.id.toString()\<close> without \<open>id\<close>,
  \<open>Object.keys(vafConfig.environments)\<close> and \<open>vafConfig.environments[finalEnvName]\<close>
  without \<open>environments\<close> (the messages are those of Node.js).
\<close>

definition list_environments :: "(string \<times> EnvConfig option) list \<Rightarrow> event list" where
  "list_environments envs = map (\<lambda>env. ConsoleLog (''  - '' @ env)) (map fst envs)"

definition missing_identifier :: "event list" where
  "missing_identifier =
     [ErrorLine ''Project ID and environment name are required'',
      InfoLine ''Either provide them as arguments or configure vaf.yml'']"

definition unknown_environment :: "(string \<times> EnvConfig option) list \<Rightarrow> string \<Rightarrow> event list" where
  "unknown_environment envs finalEnvName =
     [ErrorLine (''Environment '' @ dquote @ finalEnvName @ dquote @ '' not found in vaf.yml''),
      InfoLine ''Available environments:''] @ list_environments envs"

definition reading_of_undefined :: "string \<Rightarrow> string" where
  "reading_of_undefined name =
     ''Cannot read properties of undefined (reading '' @ squote @ name @ squote @ '')''"

text \<open>The rest of the resolution when no environment name was given, for a project file.\<close>

definition without_env_name :: "VafConfig \<Rightarrow> 'a step" where
  "without_env_name cfg =
     (case environments cfg of
        None \<Rightarrow> Throws ''Cannot convert undefined or null to object''
      | Some envs \<Rightarrow>
          if envs \<noteq> []
          then Exit (ErrorLine ''Environment name is required. Available environments:''
                     # list_environments envs)
          else Exit missing_identifier)"

text \<open>The rest of the resolution for the environment name \<open>finalEnvName\<close>, not empty.\<close>

definition with_env_name ::
  "VafConfig \<Rightarrow> string \<Rightarrow> string \<Rightarrow> (string \<times> string \<times> EnvConfig option) step"
where
  "with_env_name cfg finalProjectId finalEnvName =
     (case environments cfg of
        None \<Rightarrow> Throws (reading_of_undefined finalEnvName)
      | Some envs \<Rightarrow>
          (case lookup_environment envs finalEnvName of
             None \<Rightarrow> Exit (unknown_environment envs finalEnvName)
           | Some envConfig \<Rightarrow> Proceed (finalProjectId, finalEnvName, Some envConfig)))"

definition resolve ::
  "VafConfig option \<Rightarrow> string option \<Rightarrow> string option
     \<Rightarrow> (string \<times> string \<times> EnvConfig option) step"
where
  "resolve vafConfig projectId envName =
     (case vafConfig of
        None \<Rightarrow>
          (case (projectId, envName) of
             (Some p, Some e) \<Rightarrow>
               if p = [] \<or> e = [] then Exit missing_identifier else Proceed (p, e, None)
           | _ \<Rightarrow> Exit missing_identifier)
      | Some cfg \<Rightarrow>
          (case (if \<not> truthy projectId then map_option show_int (cfg_id cfg) else projectId) of
             None \<Rightarrow> Throws (reading_of_undefined ''toString'')
           | Some finalProjectId \<Rightarrow>
               (case envName of
                  None \<Rightarrow> without_env_name cfg
                | Some finalEnvName \<Rightarrow>
                    if finalEnvName = [] then without_env_name cfg
                    else with_env_name cfg finalProjectId finalEnvName)))"

section \<open>commands/deploy: build\<close>

text \<open>
  \<^verbatim>\<open>
        const skipBuild = options['no-build'] || false;
        if (envConfig?.build && !skipBuild) {
          utils.info('Running build commands...');
          for (const buildCmd of envConfig.build) {
            try {
              utils.info(`Running: ${buildCmd}`);
              await execAsync(buildCmd, { cwd });
            } catch (error: any) {
              utils.warn(`Build command failed: ${buildCmd}`);
            }
          }
          utils.success('Build commands completed');
        } else {
          utils.info('Building application...');
          try {
            const { stdout, stderr } = await execAsync('npm run build', { cwd });
            if (stderr) console.error(stderr);
            utils.success('Build completed');
          } catch (error: any) {
            utils.warn('Build command failed, continuing with current directory...');
          }
        }
  \<close>
  No failure leaves this part. What the shell commands do to the directory is not modelled.
\<close>

definition env_field :: "(EnvConfig \<Rightarrow> 'a option) \<Rightarrow> EnvConfig option \<Rightarrow> 'a option" where
  "env_field f envConfig = (case envConfig of None \<Rightarrow> None | Some e \<Rightarrow> f e)"

definition fallback_build :: "World \<Rightarrow> event list" where
  "fallback_build w =
     InfoLine ''Building application...'' #
       (case exec w ''npm run build'' of
          Inr stderr \<Rightarrow>
            (if stderr \<noteq> [] then [ConsoleError stderr] else []) @ [SuccessLine ''Build completed'']
        | Inl _ \<Rightarrow> [WarnLine ''Build command failed, continuing with current directory...''])"

definition run_build :: "World \<Rightarrow> DeployOptions \<Rightarrow> EnvConfig option \<Rightarrow> event list" where
  "run_build w options envConfig =
     (let skipBuild = opt_no_build options
      in case env_field env_build envConfig of
           None \<Rightarrow> fallback_build w
         | Some cmds \<Rightarrow>
             if \<not> skipBuild
             then InfoLine ''Running build commands...'' #
                    concat (map (\<lambda>buildCmd.
                       InfoLine (''Running: '' @ buildCmd) #
                         (case exec w buildCmd of
                            Inl _ \<Rightarrow> [WarnLine (''Build command failed: '' @ buildCmd)]
                          | Inr _ \<Rightarrow> [])) cmds)
                    @ [SuccessLine ''Build commands completed'']
             else fallback_build w)"

section \<open>commands/deploy: the release payload\<close>

text \<open>
  \<^verbatim>\<open>
          const deploymentParams: any = {
            deploymentKey,
            runtime: options.runtime || envConfig?.runtime || 'nodejs18.x',
            handler: options.handler || 'index.handler',
          };
          if (options.memory !== undefined) {
            deploymentParams.memory = options.memory;
          } else if (envConfig?.memory !== undefined) {
            deploymentParams.memory = envConfig.memory;
          }
          if (options.timeout !== undefined) {
            deploymentParams.timeout = options.timeout;
          } else if (envConfig?.timeout !== undefined) {
            deploymentParams.timeout = envConfig.timeout;
          }
          if (options.database) {
            deploymentParams.database = options.database;
          } else if (envConfig?.database) {
            deploymentParams.database = envConfig.database;
          }
          if (options.cache) {
            deploymentParams.cache = options.cache;
          } else if (envConfig?.cache) {
            deploymentParams.cache = envConfig.cache;
          }
          if (options.storage) {
            deploymentParams.storage = options.storage;
          } else if (envConfig?.storage) {
            deploymentParams.storage = envConfig.storage;
          }
  \<close>
\<close>

definition deploymentParams :: "string \<Rightarrow> DeployOptions \<Rightarrow> EnvConfig option \<Rightarrow> DeploymentParams" where
  "deploymentParams k options envConfig =
     \<lparr> deploymentKey = k,
       runtime = js_or_default (js_or (opt_runtime options) (env_field env_runtime envConfig))
                   ''nodejs18.x'',
       handler = js_or_default (opt_handler options) ''index.handler'',
       memory =
         (if opt_memory options \<noteq> None then opt_memory options
          else if env_field env_memory envConfig \<noteq> None then env_field env_memory envConfig
          else None),
       timeout =
         (if opt_timeout options \<noteq> None then opt_timeout options
          else if env_field env_timeout envConfig \<noteq> None then env_field env_timeout envConfig
          else None),
       database =
         (if truthy (opt_database options) then opt_database options
          else if truthy (env_field env_database envConfig) then env_field env_database envConfig
          else None),
       cache =
         (if truthy (opt_cache options) then opt_cache options
          else if truthy (env_field env_cache envConfig) then env_field env_cache envConfig
          else None),
       storage =
         (if truthy (opt_storage options) then opt_storage options
          else if truthy (env_field env_storage envConfig) then env_field env_storage envConfig
          else None) \<rparr>"

section \<open>commands/deploy: pollDeploymentStatus\<close>

text \<open>
  \<^verbatim>\<open>
  let attempts = 0;
  const maxAttempts = 60; // 5 minutes max
  while (attempts < maxAttempts) {
    try {
      const deployment = await api.get<any>(`/api/projects/${projectId}/environments/${envName}/deployment/${deploymentId}`);
      console.log(chalk.blue(`Status: ${deployment.status}`));
      if (deployment.status === 'success') {
        utils.success('Deployment completed successfully!');
        if (deployment.url) { console.log(chalk.green(`URL: ${deployment.url}`)); }
        return;
      }
      if (deployment.status === 'failed') {
        utils.error('Deployment failed');
        if (deployment.logs) { console.log(chalk.red('Logs:')); console.log(deployment.logs); }
        return;
      }
      if (deployment.logs) {
        const lines = deployment.logs.split('\n');
        lines.slice(-5).forEach((line: string) => console.log(line));
      }
      await new Promise((resolve) => setTimeout(resolve, 5000));
      attempts++;
    } catch (error: any) {
      utils.error(error.message || 'Failed to check deployment status');
      return;
    }
  }
  utils.warn('Deployment is taking longer than expected...');
  \<close>
  \<open>answers n\<close> is the backend's answer to the \<open>n\<close>-th request (from 0); the function
  returns what it prints, requests and waits for, in order.
\<close>

definition api_path :: "string \<Rightarrow> string \<Rightarrow> string \<Rightarrow> string" where
  "api_path projectId envName rest =
     ''/api/projects/'' @ projectId @ ''/environments/'' @ envName @ ''/deployment/'' @ rest"

definition maxAttempts :: nat where
  "maxAttempts = 60"

definition report_success :: "Release \<Rightarrow> event list" where
  "report_success deployment =
     SuccessLine ''Deployment completed successfully!'' #
       (case url deployment of
          None \<Rightarrow> []
        | Some u \<Rightarrow> if u \<noteq> [] then [ConsoleLog (''URL: '' @ u)] else [])"

definition report_failed :: "Release \<Rightarrow> event list" where
  "report_failed deployment =
     ErrorLine ''Deployment failed'' #
       (case logs deployment of
          None \<Rightarrow> []
        | Some l \<Rightarrow> if l \<noteq> [] then [ConsoleLog ''Logs:'', ConsoleLog l] else [])"

definition log_tail :: "Release \<Rightarrow> event list" where
  "log_tail deployment =
     (case logs deployment of
        None \<Rightarrow> []
      | Some l \<Rightarrow>
          if l \<noteq> [] then map ConsoleLog (slice_last 5 (split_str (CHR 0x0A) l)) else [])"

function poll_loop :: "(nat \<Rightarrow> string + Release) \<Rightarrow> string \<Rightarrow> nat \<Rightarrow> event list" where
  "poll_loop answers path attempts =
     (if attempts < maxAttempts
      then ApiGet path #
             (case answers attempts of
                Inl message \<Rightarrow>
                  [ErrorLine (if message \<noteq> [] then message
                              else ''Failed to check deployment status'')]
              | Inr deployment \<Rightarrow>
                  ConsoleLog (''Status: '' @ status deployment) #
                    (if status deployment = ''success'' then report_success deployment
                     else if status deployment = ''failed'' then report_failed deployment
                     else log_tail deployment @ Sleep 5000 #
                            poll_loop answers path (Suc attempts)))
      else [WarnLine ''Deployment is taking longer than expected...''])"
  by pat_completeness auto
termination
  by (relation "measure (\<lambda>(answers, path, attempts). maxAttempts - attempts)") auto

declare poll_loop.simps [simp del]

definition pollDeploymentStatus ::
  "(string \<Rightarrow> nat \<Rightarrow> string + Release) \<Rightarrow> string \<Rightarrow> string \<Rightarrow> string \<Rightarrow> event list"
where
  "pollDeploymentStatus backend projectId envName deploymentId =
     poll_loop (backend (api_path projectId envName deploymentId))
       (api_path projectId envName deploymentId) 0"

section \<open>commands/deploy: deploy\<close>

text \<open>
  \<^verbatim>\<open>
        const ignorePatterns = await readVafIgnore(cwd);
        const timestamp = Date.now();
        const tempZip = path.join(cwd, `.vaf-deploy-temp-${timestamp}.zip`);
        const deploymentKey = `deployments/${timestamp}-package.zip`;
        try {
          utils.info('Creating deployment package...');
          await zipDirectory(cwd, tempZip, ignorePatterns);
          const stats = fs.statSync(tempZip);
          utils.info(`Package size: ${formatBytes(stats.size)}`);
          utils.info('Getting upload URL...');
          const uploadUrlResponse = await api.get<{ uploadUrl: string }>(
            `/api/projects/${finalProjectId}/environments/${finalEnvName}/deployment/upload-url`);
          utils.info('Uploading package...');
          const fileBuffer = fs.readFileSync(tempZip);
          await axios.put(uploadUrlResponse.uploadUrl, fileBuffer, { headers: ... });
          utils.info('Triggering deployment...');
          const deploymentParams: any = { ... };
          const deployment = await api.post<any>(
            `/api/projects/${finalProjectId}/environments/${finalEnvName}/deployment/deploy`,
            deploymentParams);
          utils.success(`Deployment initiated: ${deployment.id || 'Success'}`);
          if (deployment.id) {
            await pollDeploymentStatus(finalProjectId, finalEnvName, deployment.id);
          }
        } finally {
          if (fs.existsSync(tempZip)) {
            fs.unlinkSync(tempZip);
          }
        }
  \<close>
  \<open>deploy_try\<close> is the body of the \<open>try\<close>. \<open>fs.unlinkSync\<close> is taken to succeed.
\<close>

definition temp_zip :: "nat \<Rightarrow> string" where
  "temp_zip timestamp = ''.vaf-deploy-temp-'' @ show_nat timestamp @ ''.zip''"

definition deployment_key :: "nat \<Rightarrow> string" where
  "deployment_key timestamp = ''deployments/'' @ show_nat timestamp @ ''-package.zip''"

definition deploy_try ::
  "World \<Rightarrow> DeployOptions \<Rightarrow> string \<Rightarrow> string \<Rightarrow> EnvConfig option \<Rightarrow> string list \<Rightarrow> nat
     \<Rightarrow> Attempt"
where
  "deploy_try w options finalProjectId finalEnvName envConfig ignorePatterns timestamp =
     (let tempZip = temp_zip timestamp;
          call = zipDirectory ignorePatterns;
          l0 = [InfoLine ''Creating deployment package...'']
      in case archiver w call of
           ZipFailed message left \<Rightarrow>
             \<lparr> thrown = Some message,
               left_dir = (case left of None \<Rightarrow> cwd w | Some part \<Rightarrow> (cwd w)(tempZip \<mapsto> part)),
               handed = call, sent = None, printed = l0 \<rparr>
         | Written bytes \<Rightarrow>
             (let d = (cwd w)(tempZip \<mapsto> bytes);
                  l1 = l0 @ [InfoLine (''Package size: '' @ formatBytes w (length bytes)),
                             InfoLine ''Getting upload URL...'',
                             ApiGet (api_path finalProjectId finalEnvName ''upload-url'')]
              in case upload_url w (api_path finalProjectId finalEnvName ''upload-url'') of
                   Inl message \<Rightarrow>
                     \<lparr> thrown = Some message, left_dir = d, handed = call, sent = None,
                       printed = l1 \<rparr>
                 | Inr uploadUrlResponse \<Rightarrow>
                     (let l2 = l1 @ [InfoLine ''Uploading package...'',
                                     HttpPut (uploadUrl uploadUrlResponse)]
                      in case put w (uploadUrl uploadUrlResponse) bytes of
                           Inl message \<Rightarrow>
                             \<lparr> thrown = Some message, left_dir = d, handed = call, sent = None,
                               printed = l2 \<rparr>
                         | Inr _ \<Rightarrow>
                             (let params = deploymentParams (deployment_key timestamp)
                                             options envConfig;
                                  l3 = l2 @ [InfoLine ''Triggering deployment...'',
                                             ApiPost (api_path finalProjectId finalEnvName ''deploy'')]
                              in case post w (api_path finalProjectId finalEnvName ''deploy'') params of
                                   Inl message \<Rightarrow>
                                     \<lparr> thrown = Some message, left_dir = d, handed = call,
                                       sent = Some params, printed = l3 \<rparr>
                                 | Inr deployment \<Rightarrow>
                                     \<lparr> thrown = None, left_dir = d, handed = call,
                                       sent = Some params,
                                       printed =
                                         l3 @ SuccessLine (''Deployment initiated: ''
                                                @ js_or_default (dep_id deployment) ''Success'') #
                                           (case dep_id deployment of
                                              None \<Rightarrow> []
                                            | Some i \<Rightarrow>
                                                if i \<noteq> []
                                                then pollDeploymentStatus (fetch w)
                                                       finalProjectId finalEnvName i
                                                else []) \<rparr>))))"

text \<open>
  One run of \<open>deploy\<close> from its first line to its last, with nothing else running in the
  process: the \<open>finally\<close> removes the temporary archive from the directory that the body
  of the \<open>try\<close> left.
\<close>

definition deploy :: "World \<Rightarrow> DeployOptions \<Rightarrow> string option \<Rightarrow> string option \<Rightarrow> Result" where
  "deploy w options projectId envName =
     (case loadVafConfig (yaml_load w) (cwd w) of
        (vafConfig, l0) \<Rightarrow>
          (case resolve vafConfig projectId envName of
             Exit lines \<Rightarrow>
               \<lparr> outcome = Exited 1, final_dir = cwd w, archived = None, posted = None,
                 log = l0 @ lines \<rparr>
           | Throws message \<Rightarrow>
               \<lparr> outcome = Threw message, final_dir = cwd w, archived = None, posted = None,
                 log = l0 \<rparr>
           | Proceed (finalProjectId, finalEnvName, envConfig) \<Rightarrow>
               (let l1 = l0 @ run_build w options envConfig;
                    ignorePatterns = readVafIgnore (cwd w);
                    timestamp = now w;
                    tempZip = temp_zip timestamp;
                    attempt = deploy_try w options finalProjectId finalEnvName envConfig
                                ignorePatterns timestamp
                in \<lparr> outcome = (case thrown attempt of
                                   None \<Rightarrow> Returned
                                 | Some message \<Rightarrow> Threw message),
                     final_dir = (left_dir attempt)(tempZip := None),
                     archived = Some (handed attempt),
                     posted = sent attempt,
                     log = l1 @ printed attempt \<rparr>)))"

text \<open>
  The action of the command:
  \<^verbatim>\<open>
    try {
      if (!config.getToken()) {
        utils.error('Not authenticated. Please run "vaf login"');
        process.exit(1);
      }
      const deploy = async () => { ... };
      if (options.watch) {
        utils.info('Watching for changes...');
        const watcher = chokidar.watch('.', { ... });
        let deployTimer: NodeJS.Timeout;
        watcher.on('all', async (event, filePath) => { ... });
      } else {
        await deploy();
      }
    } catch (error: any) {
      utils.error(error.message || 'Failed to deploy');
      process.exit(1);
    }
  \<close>
  With \<open>--watch\<close> no run of \<open>deploy\<close> is started here; the runs of a watch session
  are those of \<open>watch\<close> below.
\<close>

definition deployCommand :: "World \<Rightarrow> DeployOptions \<Rightarrow> string option \<Rightarrow> string option \<Rightarrow> Result" where
  "deployCommand w options projectId envName =
     (if \<not> truthy (token w)
      then \<lparr> outcome = Exited 1, final_dir = cwd w, archived = None, posted = None,
             log = [ErrorLine (''Not authenticated. Please run '' @ dquote @ ''vaf login'' @ dquote)] \<rparr>
      else if opt_watch options
      then \<lparr> outcome = Watching, final_dir = cwd w, archived = None, posted = None,
             log = [InfoLine ''Watching for changes...''] \<rparr>
      else (let r = deploy w options projectId envName
            in case outcome r of
                 Threw message \<Rightarrow>
                   r\<lparr> outcome := Exited 1,
                      log := log r @ [ErrorLine (if message \<noteq> [] then message
                                                  else ''Failed to deploy'')] \<rparr>
               | _ \<Rightarrow> r))"

section \<open>commands/deploy: watch mode\<close>

text \<open>
  \<^verbatim>\<open>
        let deployTimer: NodeJS.Timeout;
        watcher.on('all', async (event, filePath) => {
          // Skip if it's the temp zip file or hidden files
          if (filePath.includes('.vaf-deploy-temp-') || filePath.startsWith('.')) {
            return;
          }
          // Debounce - wait 2 seconds after last change
          clearTimeout(deployTimer);
          deployTimer = setTimeout(async () => {
            utils.info(`\nChange detected in ${filePath}, deploying...`);
            try {
              await deploy();
            } catch (error: any) {
              utils.error(error.message || 'Deployment failed');
            }
          }, 2000);
        });
  \<close>
  Time is in milliseconds. The state of a watch session is the timer (the time at which
  it is due, when armed) and the runs of \<open>deploy\<close> started so far, each with the time it
  starts and the time it ends. \<open>takes t\<close> is how long the run of \<open>deploy\<close> started at
  \<open>t\<close> lasts: its awaits (build, upload, polling) are the environment's. The handler
  keeps no other state.
\<close>

record Watch =
  deployTimer :: "nat option"
  runs :: "(nat \<times> nat) list"

definition skipped :: "string \<Rightarrow> bool" where
  "skipped filePath = (includes_str filePath ''.vaf-deploy-temp-'' \<or> startsWith filePath ''.'')"

text \<open>The event loop runs the callback of a timer that is due: a run of \<open>deploy\<close> starts.\<close>

definition timer_due :: "(nat \<Rightarrow> nat) \<Rightarrow> nat \<Rightarrow> Watch \<Rightarrow> Watch" where
  "timer_due takes t st =
     (case deployTimer st of
        None \<Rightarrow> st
      | Some due \<Rightarrow>
          if due \<le> t
          then st\<lparr> deployTimer := None, runs := runs st @ [(due, due + takes due)] \<rparr>
          else st)"

text \<open>The handler, for a change of \<open>filePath\<close> at time \<open>t\<close> (timers due by then have run).\<close>

definition on_all :: "(nat \<Rightarrow> nat) \<Rightarrow> Watch \<Rightarrow> nat \<times> string \<Rightarrow> Watch" where
  "on_all takes st ev =
     (case ev of
        (t, filePath) \<Rightarrow>
          (let st' = timer_due takes t st
           in if skipped filePath then st'
              else st'\<lparr> deployTimer := Some (t + 2000) \<rparr>))"

text \<open>
  A watch session over the changes \<open>evs\<close> (in the order of their times), followed by
  quiet: the runs of \<open>deploy\<close> it starts.
\<close>

definition watch :: "(nat \<Rightarrow> nat) \<Rightarrow> (nat \<times> string) list \<Rightarrow> (nat \<times> nat) list" where
  "watch takes evs =
     (let st = foldl (on_all takes) \<lparr> deployTimer = None, runs = [] \<rparr> evs
      in case deployTimer st of
           None \<Rightarrow> runs st
         | Some due \<Rightarrow> runs st @ [(due, due + takes due)])"

text \<open>Two runs are concurrent when a later one starts before an earlier one has ended.\<close>

fun concurrent :: "(nat \<times> nat) list \<Rightarrow> bool" where
  "concurrent [] = False"
| "concurrent (r # rs) = (list_ex (\<lambda>r'. fst r' < snd r) rs \<or> concurrent rs)"

text \<open>
  \<open>process.exit\<close> ends the process at once. A run of \<open>deploy\<close> that is awaiting inside
  its \<open>try\<close> when another run of the session calls it never resumes: its \<open>finally\<close> does
  not run. \<open>deploy_cut_short\<close> is the directory such a run leaves when it is cut short
  after its archiver has finished: the directory as the body of the \<open>try\<close> has it.
\<close>

definition deploy_cut_short ::
  "World \<Rightarrow> DeployOptions \<Rightarrow> string option \<Rightarrow> string option \<Rightarrow> directory"
where
  "deploy_cut_short w options projectId envName =
     (case resolve (fst (loadVafConfig (yaml_load w) (cwd w))) projectId envName of
        Proceed (finalProjectId, finalEnvName, envConfig) \<Rightarrow>
          left_dir (deploy_try w options finalProjectId finalEnvName envConfig
                      (readVafIgnore (cwd w)) (now w))
      | _ \<Rightarrow> cwd w)"

section \<open>The precedence rule in the specification's words\<close>

text \<open>
  The three tiers of the specification: the explicit override when there is one, else the
  value the environment declares when there is one, else the built-in default.
\<close>

definition precedence :: "'a option \<Rightarrow> 'a option \<Rightarrow> 'a \<Rightarrow> 'a" where
  "precedence override declared dflt =
     (case override of
        Some v \<Rightarrow> v
      | None \<Rightarrow> (case declared of Some v \<Rightarrow> v | None \<Rightarrow> dflt))"

text \<open>The first two tiers alone, for a field with no default: absent when neither is given.\<close>

definition first_given :: "'a option \<Rightarrow> 'a option \<Rightarrow> 'a option" where
  "first_given override declared = (case override of Some v \<Rightarrow> Some v | None \<Rightarrow> declared)"

text \<open>A string counts as given when it is defined and not empty.\<close>

definition nonempty :: "string option \<Rightarrow> string option" where
  "nonempty v = (if truthy v then v else None)"

section \<open>Concrete inputs\<close>

text \<open>No option on the command line; an environment entry that declares nothing.\<close>

definition no_options :: DeployOptions where
  "no_options =
     \<lparr> opt_memory = None, opt_timeout = None, opt_database = None, opt_cache = None,
       opt_storage = None, opt_runtime = None, opt_handler = None, opt_watch = False,
       opt_no_build = False \<rparr>"

definition empty_env :: EnvConfig where
  "empty_env =
     \<lparr> env_runtime = None, env_memory = None, env_timeout = None, env_database = None,
       env_cache = None, env_storage = None, env_handler = None, env_build = None,
       env_deploy = None \<rparr>"

text \<open>A directory with no file in it; a run of \<open>deploy\<close> that always takes 10 seconds.\<close>

definition empty_dir :: directory where
  "empty_dir = Map.empty"

definition ten_seconds :: "nat \<Rightarrow> nat" where
  "ten_seconds start = 10000"

text \<open>
  A world in which every step succeeds: no project file and no ignore file in the
  directory, and a backend that answers the upload-url request with a transfer target and
  a storage key of its own.
\<close>

definition example_world :: World where
  "example_world =
     \<lparr> cwd = empty_dir,
       yaml_load = (\<lambda>content. Inl ''not called''),
       token = Some ''secret'',
       now = 1700000000000,
       exec = (\<lambda>command. Inr []),
       archiver = (\<lambda>call. Written ''PK''),
       formatBytes = (\<lambda>bytes. ''2 Bytes''),
       upload_url = (\<lambda>path. Inr \<lparr> uploadUrl = ''https://storage.example/put'',
                                    key = Some ''uploads/abc123.zip'' \<rparr>),
       put = (\<lambda>target body. Inr ()),
       post = (\<lambda>path params. Inr \<lparr> dep_id = None \<rparr>),
       fetch = (\<lambda>path n. Inl ''not called'') \<rparr>"

text \<open>The same world, except that the upload is refused.\<close>

definition failing_upload_world :: World where
  "failing_upload_world =
     example_world\<lparr> put := (\<lambda>target body. Inl ''Request failed with status code 403'') \<rparr>"

text \<open>
  Project files with two declared environments and with one, and a world whose directory
  holds a project file that parses to a given configuration.
\<close>

definition two_envs :: VafConfig where
  "two_envs =
     \<lparr> cfg_id = Some 73512, cfg_name = Some ''SnapSnag'',
       environments = Some [(''develop'', Some empty_env), (''production'', Some empty_env)] \<rparr>"

definition one_env :: VafConfig where
  "one_env =
     \<lparr> cfg_id = Some 73512, cfg_name = Some ''SnapSnag'',
       environments = Some [(''develop'', Some empty_env)] \<rparr>"

definition project_world :: "VafConfig \<Rightarrow> World" where
  "project_world cfg =
     example_world\<lparr> cwd := [''vaf.yml'' \<mapsto> ''id: 73512''],
                    yaml_load := (\<lambda>content. Inr (Some cfg)) \<rparr>"

text \<open>
  A watch session with two runs. The first run finds a project file with the environments
  \<open>develop\<close> and \<open>production\<close>, uploads, and waits for a release that stays pending.
  The second run starts while the first is polling, in the directory as the first has it,
  where the project file has been saved without \<open>production\<close>.
\<close>

definition example_yaml :: "string \<Rightarrow> string + VafConfig option" where
  "example_yaml content =
     (if content = ''environments: develop, production'' then Inr (Some two_envs)
      else if content = ''environments: develop'' then Inr (Some one_env)
      else Inl ''YAMLException: unexpected end of the stream'')"

definition first_run_world :: World where
  "first_run_world =
     example_world\<lparr> cwd := [''vaf.yml'' \<mapsto> ''environments: develop, production''],
                    yaml_load := example_yaml,
                    now := 1700000002000,
                    post := (\<lambda>path params. Inr \<lparr> dep_id = Some ''d-1'' \<rparr>),
                    fetch := (\<lambda>path n. Inr \<lparr> status = ''pending'', logs = None, url = None \<rparr>) \<rparr>"

definition second_run_world :: World where
  "second_run_world =
     first_run_world\<lparr>
       cwd := (deploy_cut_short first_run_world no_options (Some ''73512'') (Some ''production''))
                (''vaf.yml'' \<mapsto> ''environments: develop''),
       now := 1700000006000 \<rparr>"

text \<open>A world whose project file does not parse.\<close>

definition broken_world :: World where
  "broken_world =
     example_world\<lparr> cwd := [''vaf.yml'' \<mapsto> ''environments: [''],
                    yaml_load := (\<lambda>content. Inl ''YAMLException: unexpected end of the stream'') \<rparr>"

text \<open>The same world with no project file in the directory.\<close>

definition no_config :: "World \<Rightarrow> World" where
  "no_config w = w\<lparr> cwd := (cwd w)(''vaf.yml'' := None, ''vapor.yml'' := None) \<rparr>"


section \<open>Reading a run\<close>

text \<open>The number of status requests in a run, and the waits in it, in order.\<close>

fun is_request :: "event \<Rightarrow> bool" where
  "is_request (ApiGet path) = True"
| "is_request e = False"

definition requests :: "event list \<Rightarrow> nat" where
  "requests evs = length (filter is_request evs)"


section \<open>Ignore-file parsing\<close>

lemma empty_dir_lookup [simp]: "empty_dir name = None"
  by (simp add: empty_dir_def)

lemma split_str_not_Nil: "split_str sep s \<noteq> []"
  by (induction s) (auto split: list.splits)

lemma join_split: "join_str sep (split_str sep s) = s"
proof (induction s)
  case Nil
  show ?case by simp
next
  case (Cons c cs)
  obtain p ps where ps: "split_str sep cs = p # ps"
    using split_str_not_Nil [of sep cs] by (cases "split_str sep cs") auto
  show ?case
  proof (cases "c = sep")
    case True
    with Cons ps show ?thesis by simp
  next
    case False
    with Cons ps show ?thesis by (cases ps) auto
  qed
qed

lemma split_no_sep: "p \<in> set (split_str sep s) \<Longrightarrow> sep \<notin> set p"
proof (induction s arbitrary: p)
  case Nil
  then show ?case by simp
next
  case (Cons c cs)
  then show ?case
    by (cases "split_str sep cs") (auto split: if_splits simp: split_str_not_Nil)
qed

lemma trim_Nil_iff: "trim l = [] \<longleftrightarrow> blank_line l"
proof
  assume "trim l = []"
  then have all: "\<forall>c \<in> set (dropWhile is_space l). is_space c"
    by (simp add: trim_def)
  show "blank_line l"
  proof (cases "dropWhile is_space l")
    case Nil
    then show ?thesis by (simp add: blank_line_def list_all_iff)
  next
    case (Cons c cs)
    then have "\<not> is_space (hd (dropWhile is_space l))"
      using hd_dropWhile [of is_space l] by simp
    moreover have "hd (dropWhile is_space l) \<in> set (dropWhile is_space l)"
      using Cons by simp
    ultimately show ?thesis using all by blast
  qed
next
  assume "blank_line l"
  then have d: "dropWhile is_space l = []"
    by (simp add: blank_line_def list_all_iff)
  show "trim l = []"
    unfolding trim_def d by simp
qed

lemma trim_startsWith_hash: "startsWith (trim l) ''#'' \<longleftrightarrow> comment_line l"
proof (cases "dropWhile is_space l")
  case Nil
  show ?thesis
    unfolding trim_def comment_line_def Nil by (simp add: startsWith_def)
next
  case (Cons c cs)
  have nsp: "\<not> is_space c"
    using hd_dropWhile [of is_space l] Cons by simp
  have "rev (dropWhile is_space (rev (c # cs))) \<noteq> []"
  proof
    assume "rev (dropWhile is_space (rev (c # cs))) = []"
    then have "\<forall>x \<in> set (c # cs). is_space x"
      by (simp add: dropWhile_eq_Nil_conv)
    with nsp show False by simp
  qed
  moreover have "hd (rev (dropWhile is_space (rev (c # cs)))) = c"
  proof -
    have "dropWhile is_space (rev (c # cs)) = dropWhile is_space (rev cs @ [c])" by simp
    also have "\<dots> = (if \<forall>x \<in> set (rev cs). is_space x then [c]
                      else dropWhile is_space (rev cs) @ [c])"
      using nsp by (simp add: dropWhile_append)
    finally show ?thesis by (auto simp: hd_rev)
  qed
  ultimately show ?thesis
    using Cons
    by (cases "rev (dropWhile is_space (rev (c # cs)))")
       (auto simp: trim_def startsWith_def comment_line_def)
qed

lemma readVafIgnore_present:
  "dir ''.vafignore'' = Some content \<Longrightarrow> readVafIgnore dir = spec_patterns content"
  by (simp add: readVafIgnore_def spec_patterns_def filter_map comp_def
      trim_Nil_iff trim_startsWith_hash)

text \<open>
  C8. The effective pattern list. With an ignore file it is exactly the trimmed lines that
  are neither blank nor comments, in the order of the file. Without one it is the built-in
  default list, which holds five patterns: the four the specification names and, first,
  the dependency directory's \<open>node_modules/**\<close>.
\<close>

theorem readVafIgnore_effective_patterns:
  "readVafIgnore d =
     (case d ''.vafignore'' of
        None \<Rightarrow> [''node_modules/**'', ''.git/**'', ''*.log'', ''.env'', ''.DS_Store'']
      | Some content \<Rightarrow> spec_patterns content)"
  by (simp add: readVafIgnore_present split: option.split) (simp add: readVafIgnore_def)

text \<open>
  In a directory with no ignore file the effective set is not the set of four that the
  specification lists.
\<close>

theorem readVafIgnore_default_counterexample:
  "set (readVafIgnore empty_dir) \<noteq> set spec_default_patterns"
proof
  assume eq: "set (readVafIgnore empty_dir) = set spec_default_patterns"
  have "''node_modules/**'' \<in> set (readVafIgnore empty_dir)"
    by (simp add: readVafIgnore_def)
  with eq have "''node_modules/**'' \<in> set spec_default_patterns"
    by simp
  then show False
    by (simp add: spec_default_patterns_def)
qed



section \<open>The release payload\<close>

lemma js_or_default_js_or:
  "js_or_default (js_or a b) d = precedence (nonempty a) (nonempty b) d"
  by (cases a; cases b)
     (simp_all add: js_or_default_def js_or_def precedence_def nonempty_def truthy_def)

lemma js_or_default_alone:
  "js_or_default a d = precedence (nonempty a) None d"
  by (cases a) (simp_all add: js_or_default_def precedence_def nonempty_def truthy_def)

lemma defined_chain:
  "(if a \<noteq> None then a else if b \<noteq> None then b else None) = first_given a b"
  by (cases a; cases b) (simp_all add: first_given_def)

lemma truthy_chain:
  "(if truthy a then a else if truthy b then b else None) = first_given (nonempty a) (nonempty b)"
  by (cases a; cases b) (simp_all add: first_given_def nonempty_def truthy_def)

text \<open>
  What \<open>deploy\<close> puts into the payload, field by field, each from its own override and its
  own declared value. \<open>runtime\<close>: a non-empty override, else a non-empty declared value,
  else \<open>nodejs18.x\<close>. \<open>handler\<close>: a non-empty override, else \<open>index.handler\<close>.
  \<open>memory\<close> and \<open>timeout\<close>: the override when given, else the declared value when given,
  else the key is absent. \<open>database\<close>, \<open>cache\<close>, \<open>storage\<close>: a non-empty override, else a
  non-empty declared value, else the key is absent.
\<close>

lemma deploymentParams_tiers:
  "runtime (deploymentParams k options envConfig) =
     precedence (nonempty (opt_runtime options)) (nonempty (env_field env_runtime envConfig))
       ''nodejs18.x''
   \<and> handler (deploymentParams k options envConfig) =
     precedence (nonempty (opt_handler options)) None ''index.handler''
   \<and> memory (deploymentParams k options envConfig) =
     first_given (opt_memory options) (env_field env_memory envConfig)
   \<and> timeout (deploymentParams k options envConfig) =
     first_given (opt_timeout options) (env_field env_timeout envConfig)
   \<and> database (deploymentParams k options envConfig) =
     first_given (nonempty (opt_database options)) (nonempty (env_field env_database envConfig))
   \<and> cache (deploymentParams k options envConfig) =
     first_given (nonempty (opt_cache options)) (nonempty (env_field env_cache envConfig))
   \<and> storage (deploymentParams k options envConfig) =
     first_given (nonempty (opt_storage options)) (nonempty (env_field env_storage envConfig))"
proof (intro conjI)
  show "runtime (deploymentParams k options envConfig) =
     precedence (nonempty (opt_runtime options)) (nonempty (env_field env_runtime envConfig))
       ''nodejs18.x''"
    by (simp add: deploymentParams_def js_or_default_js_or)
  show "handler (deploymentParams k options envConfig) =
     precedence (nonempty (opt_handler options)) None ''index.handler''"
    by (simp add: deploymentParams_def js_or_default_alone)
  show "memory (deploymentParams k options envConfig) =
     first_given (opt_memory options) (env_field env_memory envConfig)"
    by (simp only: deploymentParams_def DeploymentParams.simps defined_chain)
  show "timeout (deploymentParams k options envConfig) =
     first_given (opt_timeout options) (env_field env_timeout envConfig)"
    by (simp only: deploymentParams_def DeploymentParams.simps defined_chain)
  show "database (deploymentParams k options envConfig) =
     first_given (nonempty (opt_database options)) (nonempty (env_field env_database envConfig))"
    by (simp only: deploymentParams_def DeploymentParams.simps truthy_chain)
  show "cache (deploymentParams k options envConfig) =
     first_given (nonempty (opt_cache options)) (nonempty (env_field env_cache envConfig))"
    by (simp only: deploymentParams_def DeploymentParams.simps truthy_chain)
  show "storage (deploymentParams k options envConfig) =
     first_given (nonempty (opt_storage options)) (nonempty (env_field env_storage envConfig))"
    by (simp only: deploymentParams_def DeploymentParams.simps truthy_chain)
qed

text \<open>
  C1. The three tiers of the specification hold for the runtime and fail for the handler:
  with no \<open>--handler\<close> and an environment that declares the handler \<open>app.main\<close>, the
  payload names \<open>index.handler\<close>, where the three tiers give \<open>app.main\<close>; with a declared
  runtime and no \<open>--runtime\<close>, the payload names the declared runtime.
\<close>

theorem deploymentParams_ignores_declared_handler:
  "handler (deploymentParams (deployment_key 0) no_options
      (Some (empty_env\<lparr> env_handler := Some ''app.main'' \<rparr>))) = ''index.handler''
   \<and> precedence (opt_handler no_options)
       (env_handler (empty_env\<lparr> env_handler := Some ''app.main'' \<rparr>)) ''index.handler''
     = ''app.main''
   \<and> runtime (deploymentParams (deployment_key 0) no_options
      (Some (empty_env\<lparr> env_runtime := Some ''nodejs20.x'' \<rparr>))) = ''nodejs20.x''"
  by (simp add: deploymentParams_def precedence_def no_options_def empty_env_def
      js_or_default_def js_or_def truthy_def env_field_def)

text \<open>
  An empty \<open>--runtime\<close> does not win over the declared runtime: emptiness is tested, not
  presence.
\<close>

lemma deploymentParams_empty_override:
  "runtime (deploymentParams k (no_options\<lparr> opt_runtime := Some [] \<rparr>)
      (Some (empty_env\<lparr> env_runtime := Some ''nodejs20.x'' \<rparr>))) = ''nodejs20.x''"
  by (simp add: deploymentParams_def no_options_def empty_env_def js_or_def js_or_default_def
      truthy_def env_field_def)

text \<open>None of \<open>database\<close>, \<open>cache\<close> and \<open>storage\<close> is ever sent as the empty string.\<close>

lemma deploymentParams_never_empty:
  "database (deploymentParams k options envConfig) \<noteq> Some []"
  "cache (deploymentParams k options envConfig) \<noteq> Some []"
  "storage (deploymentParams k options envConfig) \<noteq> Some []"
  by (simp_all add: deploymentParams_def truthy_def split: option.splits)

text \<open>
  C6. A reference that is empty after trimming is not left out: \<open>--database\<close> given as
  three spaces is empty after trimming, and the payload carries it as it is.
\<close>

theorem deploymentParams_sends_whitespace:
  "database (deploymentParams (deployment_key 0) (no_options\<lparr> opt_database := Some ''   '' \<rparr>) None)
     = Some ''   ''
   \<and> trim ''   '' = []"
  by (simp add: deploymentParams_def no_options_def truthy_def trim_def is_space_def)

section \<open>The deploy attempt\<close>

lemma show_nat_now: "show_nat 1700000000000 = ''1700000000000''"
  by simp

lemma deploy_try_left_dir:
  "(left_dir (deploy_try w options p e envConfig patterns timestamp))(temp_zip timestamp := None)
     = (cwd w)(temp_zip timestamp := None)"
  by (simp add: deploy_try_def Let_def split: zip_result.split sum.split option.split)

lemma deploy_try_written:
  "archiver w (zipDirectory patterns) = Written bytes \<Longrightarrow>
   left_dir (deploy_try w options p e envConfig patterns timestamp)
     = (cwd w)(temp_zip timestamp \<mapsto> bytes)"
  by (simp add: deploy_try_def Let_def split: sum.split)

lemma deploy_try_handed:
  "handed (deploy_try w options p e envConfig patterns timestamp) = zipDirectory patterns"
  by (simp add: deploy_try_def Let_def split: zip_result.split sum.split option.split)

lemma deploy_try_sent:
  "sent (deploy_try w options p e envConfig patterns timestamp) = None
   \<or> sent (deploy_try w options p e envConfig patterns timestamp)
       = Some (deploymentParams (deployment_key timestamp) options envConfig)"
  by (simp add: deploy_try_def Let_def split: zip_result.split sum.split option.split)

lemma deploy_try_key_irrelevant:
  "deploy_try (w\<lparr> upload_url := (\<lambda>path. case upload_url w path of
                                      Inl m \<Rightarrow> Inl m
                                    | Inr r \<Rightarrow> Inr (r\<lparr> key := k' \<rparr>)) \<rparr>)
      options p e envConfig patterns timestamp
   = deploy_try w options p e envConfig patterns timestamp"
  by (simp add: deploy_try_def Let_def split: zip_result.split sum.split option.split)

lemma example_world_resolve:
  "loadVafConfig (yaml_load example_world) (cwd example_world) = (None, [])"
  "resolve None (Some ''7'') (Some ''production'') = Proceed (''7'', ''production'', None)"
  by (simp_all add: loadVafConfig_def example_world_def resolve_def)

lemma deploy_archived:
  "archived (deploy w options projectId envName) =
     (case resolve (fst (loadVafConfig (yaml_load w) (cwd w))) projectId envName of
        Proceed target \<Rightarrow> Some (zipDirectory (readVafIgnore (cwd w)))
      | _ \<Rightarrow> None)"
  by (simp add: deploy_def Let_def deploy_try_handed split: prod.split step.split)

lemma deploy_posted:
  "posted (deploy w options projectId envName) =
     (case resolve (fst (loadVafConfig (yaml_load w) (cwd w))) projectId envName of
        Proceed (p, e, envConfig) \<Rightarrow>
          sent (deploy_try w options p e envConfig (readVafIgnore (cwd w)) (now w))
      | _ \<Rightarrow> None)"
  by (simp add: deploy_def Let_def split: prod.split step.split)

lemma deploy_final_dir:
  "final_dir (deploy w options projectId envName) =
     (case resolve (fst (loadVafConfig (yaml_load w) (cwd w))) projectId envName of
        Proceed target \<Rightarrow> (cwd w)(temp_zip (now w) := None)
      | _ \<Rightarrow> cwd w)"
  by (simp add: deploy_def Let_def deploy_try_left_dir split: prod.split step.split)

lemma run_build_upload_url:
  "run_build (w\<lparr> upload_url := f \<rparr>) options envConfig = run_build w options envConfig"
  by (simp add: run_build_def fallback_build_def Let_def split: option.split sum.split)

text \<open>
  A run of \<open>deploy\<close> that nothing cuts short. Once it has reached packaging, the directory
  it leaves is the directory it found without the entry of the temporary archive, whatever
  any later step threw (the archiver, the upload-url request, the upload, the release
  request); when it stops before packaging, nothing was created and the directory is as it
  was. The same holds for the command without \<open>--watch\<close>, which exits with status 1 on an
  error only after \<open>deploy\<close> has cleaned up.
\<close>

lemma deploy_removes_temp_zip:
  "(case archived (deploy w options projectId envName) of
      None \<Rightarrow> final_dir (deploy w options projectId envName) = cwd w
    | Some call \<Rightarrow>
        final_dir (deploy w options projectId envName) = (cwd w)(temp_zip (now w) := None))
   \<and> (case archived (deployCommand w options projectId envName) of
      None \<Rightarrow> final_dir (deployCommand w options projectId envName) = cwd w
    | Some call \<Rightarrow>
        final_dir (deployCommand w options projectId envName) = (cwd w)(temp_zip (now w) := None))"
proof -
  have d: "(case archived (deploy w options projectId envName) of
      None \<Rightarrow> final_dir (deploy w options projectId envName) = cwd w
    | Some call \<Rightarrow>
        final_dir (deploy w options projectId envName) = (cwd w)(temp_zip (now w) := None))"
    by (simp add: deploy_archived deploy_final_dir split: step.split)
  have c: "archived (deployCommand w options projectId envName) = None
             \<and> final_dir (deployCommand w options projectId envName) = cwd w
           \<or> archived (deployCommand w options projectId envName)
               = archived (deploy w options projectId envName)
             \<and> final_dir (deployCommand w options projectId envName)
               = final_dir (deploy w options projectId envName)"
    by (simp add: deployCommand_def Let_def split: outcome.split)
  from d c show ?thesis by (auto split: option.splits)
qed

text \<open>
  A failing path, run alone: the archive is written, the upload is refused, \<open>deploy\<close>
  throws the error of the upload, and the archive is gone when it does; the command then
  prints the error and exits with status 1.
\<close>

lemma failing_upload_world_resolve:
  "loadVafConfig (yaml_load failing_upload_world) (cwd failing_upload_world) = (None, [])"
  by (simp add: loadVafConfig_def failing_upload_world_def example_world_def)

lemma failing_upload_try:
  "deploy_try failing_upload_world no_options ''7'' ''production'' None
      (readVafIgnore (cwd failing_upload_world)) (now failing_upload_world)
   = \<lparr> thrown = Some ''Request failed with status code 403'',
       left_dir = empty_dir(temp_zip 1700000000000 \<mapsto> ''PK''),
       handed = Glob [''node_modules/**'', ''.git/**'', ''*.log'', ''.env'', ''.DS_Store''],
       sent = None,
       printed =
         [InfoLine ''Creating deployment package...'',
          InfoLine ''Package size: 2 Bytes'',
          InfoLine ''Getting upload URL...'',
          ApiGet ''/api/projects/7/environments/production/deployment/upload-url'',
          InfoLine ''Uploading package...'',
          HttpPut ''https://storage.example/put''] \<rparr>"
  by (simp add: deploy_try_def Let_def failing_upload_world_def example_world_def api_path_def
      readVafIgnore_def zipDirectory_def)

lemma deploy_upload_failure_example:
  "outcome (deploy failing_upload_world no_options (Some ''7'') (Some ''production''))
     = Threw ''Request failed with status code 403''
   \<and> final_dir (deploy failing_upload_world no_options (Some ''7'') (Some ''production''))
       (temp_zip 1700000000000) = None
   \<and> outcome (deployCommand failing_upload_world no_options (Some ''7'') (Some ''production''))
     = Exited 1
   \<and> final_dir (deployCommand failing_upload_world no_options (Some ''7'') (Some ''production''))
       (temp_zip 1700000000000) = None"
proof -
  have now: "now failing_upload_world = 1700000000000"
    by (simp add: failing_upload_world_def example_world_def)
  have d: "deploy failing_upload_world no_options (Some ''7'') (Some ''production'') =
     \<lparr> outcome = Threw ''Request failed with status code 403'',
       final_dir = (empty_dir(temp_zip 1700000000000 \<mapsto> ''PK''))(temp_zip 1700000000000 := None),
       archived = Some (Glob [''node_modules/**'', ''.git/**'', ''*.log'', ''.env'', ''.DS_Store'']),
       posted = None,
       log = run_build failing_upload_world no_options None
             @ [InfoLine ''Creating deployment package...'',
                InfoLine ''Package size: 2 Bytes'',
                InfoLine ''Getting upload URL...'',
                ApiGet ''/api/projects/7/environments/production/deployment/upload-url'',
                InfoLine ''Uploading package...'',
                HttpPut ''https://storage.example/put''] \<rparr>"
    using failing_upload_try
    by (simp add: deploy_def failing_upload_world_resolve example_world_resolve(2) Let_def now)
  have token: "truthy (token failing_upload_world)"
    by (simp add: failing_upload_world_def example_world_def truthy_def)
  have once: "\<not> opt_watch no_options"
    by (simp add: no_options_def)
  show ?thesis
    by (simp add: d deployCommand_def token once Let_def)
qed

text \<open>
  C9. The temporary archive outlives an attempt that is cut short. In a watch session a
  change at 0 seconds starts a first run at 2 seconds, and a change of \<open>vaf.yml\<close> at 4
  seconds starts a second run at 6 seconds, while the first is running. The first run has
  written its archive and is waiting for the release. The second run finds that
  \<open>production\<close> is no longer declared and calls \<open>process.exit(1)\<close>: the process ends,
  the \<open>finally\<close> of the first run never runs, and the archive of the first run is still
  in the directory.
\<close>

theorem deploy_exit_during_run:
  "watch ten_seconds [(0, ''src/index.ts''), (4000, ''vaf.yml'')] = [(2000, 12000), (6000, 16000)]
   \<and> concurrent (watch ten_seconds [(0, ''src/index.ts''), (4000, ''vaf.yml'')])
   \<and> deploy_cut_short first_run_world no_options (Some ''73512'') (Some ''production'')
       (temp_zip 1700000002000) = Some ''PK''
   \<and> outcome (deploy second_run_world no_options (Some ''73512'') (Some ''production''))
     = Exited 1
   \<and> final_dir (deploy second_run_world no_options (Some ''73512'') (Some ''production''))
       (temp_zip 1700000002000) = Some ''PK''"
proof -
  have schedule: "watch ten_seconds [(0, ''src/index.ts''), (4000, ''vaf.yml'')]
                    = [(2000, 12000), (6000, 16000)]"
    by (simp add: watch_def on_all_def timer_due_def skipped_def startsWith_def ten_seconds_def)
  have first_load: "fst (loadVafConfig (yaml_load first_run_world) (cwd first_run_world))
                      = Some two_envs"
    by (simp add: loadVafConfig_def first_run_world_def example_world_def example_yaml_def)
  have first_target: "resolve (Some two_envs) (Some ''73512'') (Some ''production'')
                        = Proceed (''73512'', ''production'', Some empty_env)"
    by (simp add: resolve_def with_env_name_def lookup_environment_def two_envs_def truthy_def)
  have written: "archiver first_run_world (zipDirectory (readVafIgnore (cwd first_run_world)))
                   = Written ''PK''"
    by (simp add: first_run_world_def example_world_def)
  have cut: "deploy_cut_short first_run_world no_options (Some ''73512'') (Some ''production'')
               = (cwd first_run_world)(temp_zip 1700000002000 \<mapsto> ''PK'')"
    using deploy_try_written [OF written]
    by (simp add: deploy_cut_short_def first_load first_target)
       (simp add: first_run_world_def example_world_def)
  have differ: "temp_zip 1700000002000 \<noteq> ''vaf.yml''"
    by (simp add: temp_zip_def)
  have second_dir: "cwd second_run_world
      = ((cwd first_run_world)(temp_zip 1700000002000 \<mapsto> ''PK''))
          (''vaf.yml'' \<mapsto> ''environments: develop'')"
    by (simp add: second_run_world_def cut)
  have second_load: "loadVafConfig (yaml_load second_run_world) (cwd second_run_world)
                       = (Some one_env, [])"
    by (simp add: loadVafConfig_def second_dir)
       (simp add: second_run_world_def first_run_world_def example_world_def example_yaml_def)
  have second_exit: "resolve (Some one_env) (Some ''73512'') (Some ''production'')
      = Exit (unknown_environment [(''develop'', Some empty_env)] ''production'')"
    by (simp add: resolve_def with_env_name_def lookup_environment_def one_env_def truthy_def
        inherited_names_def)
  have second: "outcome (deploy second_run_world no_options (Some ''73512'') (Some ''production''))
                  = Exited 1
       \<and> final_dir (deploy second_run_world no_options (Some ''73512'') (Some ''production''))
           = cwd second_run_world"
    by (simp add: deploy_def second_load second_exit)
  show ?thesis
    using differ by (simp add: schedule cut second second_dir)
qed

text \<open>
  What \<open>deploy\<close> sends as the key is what it has built from the clock before the
  upload-url request is made, and nothing in the result of a run depends on a storage key
  in the backend's answer.
\<close>

lemma deploy_key_independent:
  "(case posted (deploy w options projectId envName) of
      None \<Rightarrow> True
    | Some params \<Rightarrow> deploymentKey params = deployment_key (now w))
   \<and> deploy (w\<lparr> upload_url := (\<lambda>path. case upload_url w path of
                                      Inl m \<Rightarrow> Inl m
                                    | Inr r \<Rightarrow> Inr (r\<lparr> key := k' \<rparr>)) \<rparr>)
        options projectId envName
     = deploy w options projectId envName"
proof
  have "posted (deploy w options projectId envName) = None
        \<or> (\<exists>envConfig. posted (deploy w options projectId envName)
            = Some (deploymentParams (deployment_key (now w)) options envConfig))"
    using deploy_try_sent
    by (simp add: deploy_posted split: step.split prod.split) blast
  then show "case posted (deploy w options projectId envName) of
      None \<Rightarrow> True
    | Some params \<Rightarrow> deploymentKey params = deployment_key (now w)"
    by (auto simp: deploymentParams_def)
next
  show "deploy (w\<lparr> upload_url := (\<lambda>path. case upload_url w path of
                                      Inl m \<Rightarrow> Inl m
                                    | Inr r \<Rightarrow> Inr (r\<lparr> key := k' \<rparr>)) \<rparr>)
        options projectId envName
     = deploy w options projectId envName"
    by (simp add: deploy_def Let_def deploy_try_key_irrelevant run_build_upload_url
        split: prod.split step.split)
qed

text \<open>
  C2. The key in the release payload is not the key the backend issued: the backend answers
  the upload-url request with the key \<open>uploads/abc123.zip\<close>, and the payload names
  \<open>deployments/1700000000000-package.zip\<close>, built by the client from its clock.
\<close>

theorem deploy_posts_own_key:
  "map_option deploymentKey (posted (deploy example_world no_options (Some ''7'') (Some ''production'')))
     = Some ''deployments/1700000000000-package.zip''
   \<and> upload_url example_world (api_path ''7'' ''production'' ''upload-url'')
     = Inr \<lparr> uploadUrl = ''https://storage.example/put'', key = Some ''uploads/abc123.zip'' \<rparr>"
proof
  show "map_option deploymentKey (posted (deploy example_world no_options (Some ''7'') (Some ''production'')))
     = Some ''deployments/1700000000000-package.zip''"
    by (simp add: deploy_posted example_world_resolve)
       (simp add: example_world_def deploy_try_def Let_def deployment_key_def
          deploymentParams_def show_nat_now del: show_nat.simps)
  show "upload_url example_world (api_path ''7'' ''production'' ''upload-url'')
     = Inr \<lparr> uploadUrl = ''https://storage.example/put'', key = Some ''uploads/abc123.zip'' \<rparr>"
    by (simp add: example_world_def)
qed

text \<open>
  The request that \<open>deploy\<close> hands the archiver is made from the list that
  \<open>readVafIgnore\<close> returns, as it is.
\<close>

lemma deploy_archives_with_ignore_list:
  "(archived (deploy w options projectId envName) = None
    \<or> archived (deploy w options projectId envName) = Some (zipDirectory (readVafIgnore (cwd w))))
   \<and> zipDirectory (readVafIgnore d) =
       (case d ''.vafignore'' of
          None \<Rightarrow> Glob [''node_modules/**'', ''.git/**'', ''*.log'', ''.env'', ''.DS_Store'']
        | Some content \<Rightarrow>
            if spec_patterns content = [] then Directory else Glob (spec_patterns content))"
proof
  show "archived (deploy w options projectId envName) = None
    \<or> archived (deploy w options projectId envName) = Some (zipDirectory (readVafIgnore (cwd w)))"
    by (simp add: deploy_archived split: step.split)
  show "zipDirectory (readVafIgnore d) =
       (case d ''.vafignore'' of
          None \<Rightarrow> Glob [''node_modules/**'', ''.git/**'', ''*.log'', ''.env'', ''.DS_Store'']
        | Some content \<Rightarrow>
            if spec_patterns content = [] then Directory else Glob (spec_patterns content))"
  proof (cases "d ''.vafignore''")
    case None
    then show ?thesis by (simp add: readVafIgnore_def zipDirectory_def)
  next
    case (Some content)
    then show ?thesis by (simp add: readVafIgnore_present zipDirectory_def)
  qed
qed

text \<open>
  C3. For a plain zip deployment the dependency-directory pattern is not removed from the
  ignore list: in a directory with no ignore file, the request that \<open>deploy\<close> hands the
  archiver is \<open>glob('**/*')\<close> with an ignore list whose first pattern is
  \<open>node_modules/**\<close>.
\<close>

theorem deploy_archives_default_list:
  "archived (deploy example_world no_options (Some ''7'') (Some ''production''))
     = Some (Glob [''node_modules/**'', ''.git/**'', ''*.log'', ''.env'', ''.DS_Store''])"
  by (simp add: deploy_archived example_world_resolve)
     (simp add: example_world_def readVafIgnore_def zipDirectory_def)

section \<open>Project and environment\<close>

lemma loadVafConfig_Some_quiet:
  "fst (loadVafConfig yaml d) = Some cfg \<Longrightarrow> loadVafConfig yaml d = (Some cfg, [])"
  by (auto simp: loadVafConfig_def split: option.splits sum.splits)

lemma show_nat_not_Nil: "show_nat n \<noteq> []"
  by (subst show_nat.simps) simp

lemma show_int_not_Nil: "show_int i \<noteq> []"
  by (simp add: show_int_def show_nat_not_Nil del: show_nat.simps)

lemma lookup_environment_None:
  "lookup_environment envs name = None \<longleftrightarrow>
     map_of envs name = Some None \<or> (map_of envs name = None \<and> name \<notin> set inherited_names)"
  by (auto simp: lookup_environment_def split: option.splits)

lemma resolve_unknown:
  assumes "environments cfg = Some envs"
    and "truthy projectId \<or> cfg_id cfg \<noteq> None"
    and "e \<noteq> []" and "map_of envs e = None" and "e \<notin> set inherited_names"
  shows "resolve (Some cfg) projectId (Some e) = Exit (unknown_environment envs e)"
proof -
  have "lookup_environment envs e = None"
    using assms(4,5) by (simp add: lookup_environment_None)
  then have rest: "with_env_name cfg p e = Exit (unknown_environment envs e)" for p
    using assms(1) by (simp add: with_env_name_def)
  show ?thesis
  proof (cases "truthy projectId")
    case True
    then obtain p where "projectId = Some p" by (cases projectId) (auto simp: truthy_def)
    with True assms(3) rest show ?thesis by (simp add: resolve_def)
  next
    case False
    with assms(2) obtain i where "cfg_id cfg = Some i" by auto
    with False assms(3) rest show ?thesis by (simp add: resolve_def)
  qed
qed

text \<open>
  A name that every object inherits is found, although no environment of that name is
  declared: the run goes on with an entry that declares nothing.
\<close>

lemma resolve_inherited_name:
  "resolve (Some two_envs) (Some ''73512'') (Some ''constructor'')
     = Proceed (''73512'', ''constructor'', Some inherited_value)"
  by (simp add: resolve_def with_env_name_def lookup_environment_def two_envs_def truthy_def
      inherited_names_def)

text \<open>
  C7. With a project file that gives \<open>environments\<close>, a project id from the command line
  or the file, and an environment name that is neither a key of \<open>environments\<close> nor a
  name that every JavaScript object inherits, \<open>deploy\<close> prints the error line naming the
  environment, the line \<open>Available environments:\<close> and one line per key of
  \<open>environments\<close>, in the order of the file, and ends the process with exit status 1
  before anything is built or packaged. The declared names are printed lines; the exit
  status is all that the process hands back.
\<close>

theorem deploy_unknown_environment:
  assumes "fst (loadVafConfig (yaml_load w) (cwd w)) = Some cfg"
    and "environments cfg = Some envs"
    and "truthy projectId \<or> cfg_id cfg \<noteq> None"
    and "envName = Some e" and "e \<noteq> []"
    and "map_of envs e = None" and "e \<notin> set inherited_names"
  shows "deploy w options projectId envName =
     \<lparr> outcome = Exited 1, final_dir = cwd w, archived = None, posted = None,
       log = [ErrorLine (''Environment '' @ dquote @ e @ dquote @ '' not found in vaf.yml''),
              InfoLine ''Available environments:'']
             @ map (\<lambda>name. ConsoleLog (''  - '' @ name)) (map fst envs) \<rparr>"
proof -
  have "loadVafConfig (yaml_load w) (cwd w) = (Some cfg, [])"
    using assms(1) by (rule loadVafConfig_Some_quiet)
  moreover have "resolve (Some cfg) projectId envName = Exit (unknown_environment envs e)"
    using resolve_unknown [OF assms(2,3,5,6,7)] assms(4) by simp
  ultimately show ?thesis
    by (simp add: deploy_def unknown_environment_def list_environments_def)
qed

lemma project_world_load:
  "loadVafConfig (yaml_load (project_world cfg)) (cwd (project_world cfg)) = (Some cfg, [])"
  by (simp add: project_world_def example_world_def loadVafConfig_def)

theorem deploy_unknown_environment_witness:
  "deploy (project_world two_envs) no_options None (Some ''staging'') =
     \<lparr> outcome = Exited 1, final_dir = cwd (project_world two_envs), archived = None,
       posted = None,
       log = [ErrorLine (''Environment '' @ dquote @ ''staging'' @ dquote @ '' not found in vaf.yml''),
              InfoLine ''Available environments:'',
              ConsoleLog ''  - develop'', ConsoleLog ''  - production''] \<rparr>"
proof -
  have 1: "fst (loadVafConfig (yaml_load (project_world two_envs)) (cwd (project_world two_envs)))
             = Some two_envs"
    by (simp add: project_world_load)
  have 2: "environments two_envs
             = Some [(''develop'', Some empty_env), (''production'', Some empty_env)]"
    by (simp add: two_envs_def)
  have 3: "truthy None \<or> cfg_id two_envs \<noteq> None"
    by (simp add: two_envs_def)
  have 4: "''staging'' \<noteq> []" by simp
  have 5: "map_of [(''develop'', Some empty_env), (''production'', Some empty_env)] ''staging''
             = None"
    by simp
  have 6: "''staging'' \<notin> set inherited_names"
    by (simp add: inherited_names_def)
  show ?thesis
    using deploy_unknown_environment [OF 1 2 3 refl 4 5 6, of no_options]
    by simp
qed

text \<open>
  Two project files that declare different environments, the same undeclared name: the
  value the run ends with is the same, \<open>Exited 1\<close>, so it does not hold the list.
\<close>

theorem deploy_unknown_environment_counterexample:
  "outcome (deploy (project_world two_envs) no_options None (Some ''staging'')) = Exited 1
   \<and> outcome (deploy (project_world one_env) no_options None (Some ''staging'')) = Exited 1
   \<and> map_option (map fst) (environments two_envs) = Some [''develop'', ''production'']
   \<and> map_option (map fst) (environments one_env) = Some [''develop'']"
proof -
  have a: "resolve (Some two_envs) None (Some ''staging'')
             = Exit (unknown_environment [(''develop'', Some empty_env), (''production'', Some empty_env)]
                 ''staging'')"
    by (rule resolve_unknown) (simp_all add: two_envs_def inherited_names_def)
  have b: "resolve (Some one_env) None (Some ''staging'')
             = Exit (unknown_environment [(''develop'', Some empty_env)] ''staging'')"
    by (rule resolve_unknown) (simp_all add: one_env_def inherited_names_def)
  show ?thesis
    by (simp add: deploy_def project_world_load a b) (simp add: two_envs_def one_env_def)
qed

lemma loadVafConfig_parse_failure:
  assumes "(configFile = ''vaf.yml'' \<and> d ''vaf.yml'' = Some content)
           \<or> (configFile = ''vapor.yml'' \<and> d ''vaf.yml'' = None \<and> d ''vapor.yml'' = Some content)"
    and "yaml content = Inl err"
  shows "loadVafConfig yaml d = (None, [ErrorLine (''Failed to parse '' @ configFile @ '': '' @ err)])"
  using assms by (auto simp: loadVafConfig_def)

lemma loadVafConfig_no_config:
  "loadVafConfig (yaml_load (no_config w)) (cwd (no_config w)) = (None, [])"
  by (simp add: no_config_def loadVafConfig_def)

lemma readVafIgnore_no_config: "readVafIgnore (cwd (no_config w)) = readVafIgnore (cwd w)"
  by (simp add: no_config_def readVafIgnore_def)

lemma run_build_no_config:
  "run_build (no_config w) options envConfig = run_build w options envConfig"
  by (simp add: no_config_def run_build_def fallback_build_def Let_def
      split: option.split sum.split)

lemma deploy_try_no_config:
  "thrown (deploy_try (no_config w) options p e envConfig patterns t)
     = thrown (deploy_try w options p e envConfig patterns t)"
  "handed (deploy_try (no_config w) options p e envConfig patterns t)
     = handed (deploy_try w options p e envConfig patterns t)"
  "sent (deploy_try (no_config w) options p e envConfig patterns t)
     = sent (deploy_try w options p e envConfig patterns t)"
  "printed (deploy_try (no_config w) options p e envConfig patterns t)
     = printed (deploy_try w options p e envConfig patterns t)"
  by (simp_all add: no_config_def deploy_try_def Let_def
      split: zip_result.split sum.split option.split)

lemma resolve_None:
  "resolve None projectId envName =
     (case (projectId, envName) of
        (Some p, Some e) \<Rightarrow>
          if p = [] \<or> e = [] then Exit missing_identifier else Proceed (p, e, None)
      | _ \<Rightarrow> Exit missing_identifier)"
  by (simp add: resolve_def)

lemma deploy_no_project_file:
  assumes "loadVafConfig (yaml_load w) (cwd w) = (None, l0)"
  shows "deploy w options projectId envName =
     (case resolve None projectId envName of
        Exit lines \<Rightarrow>
          \<lparr> outcome = Exited 1, final_dir = cwd w, archived = None, posted = None,
            log = l0 @ lines \<rparr>
      | Throws message \<Rightarrow>
          \<lparr> outcome = Threw message, final_dir = cwd w, archived = None, posted = None,
            log = l0 \<rparr>
      | Proceed (p, e, envConfig) \<Rightarrow>
          \<lparr> outcome = (case thrown (deploy_try w options p e None (readVafIgnore (cwd w)) (now w)) of
                         None \<Rightarrow> Returned | Some message \<Rightarrow> Threw message),
            final_dir = (left_dir (deploy_try w options p e None (readVafIgnore (cwd w)) (now w)))
                          (temp_zip (now w) := None),
            archived = Some (handed (deploy_try w options p e None (readVafIgnore (cwd w)) (now w))),
            posted = sent (deploy_try w options p e None (readVafIgnore (cwd w)) (now w)),
            log = l0 @ run_build w options None
                  @ printed (deploy_try w options p e None (readVafIgnore (cwd w)) (now w)) \<rparr>)"
  using assms
  by (auto simp: deploy_def Let_def resolve_None split: prod.split option.split)

text \<open>
  C10. When the project file that \<open>loadVafConfig\<close> reads (\<open>vaf.yml\<close>, or \<open>vapor.yml\<close>
  when there is no \<open>vaf.yml\<close>) does not parse, \<open>loadVafConfig\<close> prints the parse error and
  returns null, and \<open>deploy\<close> goes on as in a directory with no project file: the same
  outcome, the same archiver request, the same payload and, after the parse error, the same
  lines. With both arguments given it reaches packaging; with either missing it prints the
  missing-identifier error and exits with status 1.
\<close>

theorem deploy_unparsable_config:
  assumes "(configFile = ''vaf.yml'' \<and> cwd w ''vaf.yml'' = Some content)
           \<or> (configFile = ''vapor.yml'' \<and> cwd w ''vaf.yml'' = None \<and> cwd w ''vapor.yml'' = Some content)"
    and "yaml_load w content = Inl err"
  shows "loadVafConfig (yaml_load w) (cwd w)
           = (None, [ErrorLine (''Failed to parse '' @ configFile @ '': '' @ err)])
   \<and> outcome (deploy w options projectId envName)
       = outcome (deploy (no_config w) options projectId envName)
   \<and> archived (deploy w options projectId envName)
       = archived (deploy (no_config w) options projectId envName)
   \<and> posted (deploy w options projectId envName)
       = posted (deploy (no_config w) options projectId envName)
   \<and> log (deploy w options projectId envName)
       = ErrorLine (''Failed to parse '' @ configFile @ '': '' @ err)
         # log (deploy (no_config w) options projectId envName)
   \<and> (if truthy projectId \<and> truthy envName
       then archived (deploy w options projectId envName) \<noteq> None
       else deploy w options projectId envName =
              \<lparr> outcome = Exited 1, final_dir = cwd w, archived = None, posted = None,
                log = [ErrorLine (''Failed to parse '' @ configFile @ '': '' @ err),
                       ErrorLine ''Project ID and environment name are required'',
                       InfoLine ''Either provide them as arguments or configure vaf.yml''] \<rparr>)"
proof -
  let ?line = "ErrorLine (''Failed to parse '' @ configFile @ '': '' @ err)"
  have load: "loadVafConfig (yaml_load w) (cwd w) = (None, [?line])"
    using assms by (rule loadVafConfig_parse_failure)
  note here = deploy_no_project_file [OF load, of options projectId envName]
  note there = deploy_no_project_file [OF loadVafConfig_no_config, of w options projectId envName]
  show ?thesis
  proof (cases "resolve None projectId envName")
    case (Exit lines)
    then have lines: "lines = missing_identifier" and none: "\<not> (truthy projectId \<and> truthy envName)"
      by (auto simp: resolve_None truthy_def split: option.splits if_splits)
    from Exit lines none load show ?thesis
      by (simp add: here there missing_identifier_def)
  next
    case (Throws message)
    then show ?thesis
      by (auto simp: resolve_None split: option.splits if_splits)
  next
    case (Proceed target)
    then obtain p e where target: "target = (p, e, None)"
      and both: "truthy projectId \<and> truthy envName"
      by (auto simp: resolve_None truthy_def split: option.splits if_splits)
    from Proceed target both load show ?thesis
      by (simp add: here there deploy_try_no_config readVafIgnore_no_config
          run_build_no_config) (simp add: no_config_def)
  qed
qed

theorem deploy_unparsable_config_witness:
  "loadVafConfig (yaml_load broken_world) (cwd broken_world)
     = (None, [ErrorLine ''Failed to parse vaf.yml: YAMLException: unexpected end of the stream''])
   \<and> deploy broken_world no_options None (Some ''production'') =
       \<lparr> outcome = Exited 1, final_dir = cwd broken_world, archived = None, posted = None,
         log = [ErrorLine ''Failed to parse vaf.yml: YAMLException: unexpected end of the stream'',
                ErrorLine ''Project ID and environment name are required'',
                InfoLine ''Either provide them as arguments or configure vaf.yml''] \<rparr>
   \<and> archived (deploy broken_world no_options (Some ''73512'') (Some ''production'')) \<noteq> None"
proof -
  have present: "(''vaf.yml'' = ''vaf.yml'' \<and> cwd broken_world ''vaf.yml'' = Some ''environments: ['')
     \<or> (''vaf.yml'' = ''vapor.yml'' \<and> cwd broken_world ''vaf.yml'' = None
         \<and> cwd broken_world ''vapor.yml'' = Some ''environments: ['')"
    by (simp add: broken_world_def example_world_def)
  have fails: "yaml_load broken_world ''environments: [''
                 = Inl ''YAMLException: unexpected end of the stream''"
    by (simp add: broken_world_def example_world_def)
  note missing = deploy_unparsable_config [OF present fails, of no_options None "Some ''production''"]
  note given = deploy_unparsable_config [OF present fails, of no_options "Some ''73512''" "Some ''production''"]
  have a: "loadVafConfig (yaml_load broken_world) (cwd broken_world)
     = (None, [ErrorLine ''Failed to parse vaf.yml: YAMLException: unexpected end of the stream''])"
    using missing by simp
  have b: "deploy broken_world no_options None (Some ''production'') =
       \<lparr> outcome = Exited 1, final_dir = cwd broken_world, archived = None, posted = None,
         log = [ErrorLine ''Failed to parse vaf.yml: YAMLException: unexpected end of the stream'',
                ErrorLine ''Project ID and environment name are required'',
                InfoLine ''Either provide them as arguments or configure vaf.yml''] \<rparr>"
    using missing by (simp add: truthy_def)
  have both: "(truthy (Some ''73512'') \<and> truthy (Some ''production'')) = True"
    by (simp add: truthy_def)
  have c: "archived (deploy broken_world no_options (Some ''73512'') (Some ''production'')) \<noteq> None"
    using given unfolding both if_True by (elim conjE)
  from a b c show ?thesis by blast
qed

section \<open>Polling\<close>


lemma requests_append: "requests (xs @ ys) = requests xs + requests ys"
  by (simp add: requests_def)













section \<open>Watch mode\<close>

lemma on_all_change:
  "\<not> skipped filePath \<Longrightarrow>
   on_all takes st (t, filePath) = (timer_due takes t st)\<lparr> deployTimer := Some (t + 2000) \<rparr>"
  by (simp add: on_all_def)

lemma timer_due_not_yet:
  "t < due \<Longrightarrow> timer_due takes t \<lparr> deployTimer = Some due, runs = rs \<rparr>
     = \<lparr> deployTimer = Some due, runs = rs \<rparr>"
  by (simp add: timer_due_def)

lemma timer_due_fires:
  "due \<le> t \<Longrightarrow> timer_due takes t \<lparr> deployTimer = Some due, runs = rs \<rparr>
     = \<lparr> deployTimer = None, runs = rs @ [(due, due + takes due)] \<rparr>"
  by (simp add: timer_due_def)

lemma timer_due_idle:
  "timer_due takes t \<lparr> deployTimer = None, runs = rs \<rparr> = \<lparr> deployTimer = None, runs = rs \<rparr>"
  by (simp add: timer_due_def)

lemma watch_three:
  assumes "t1 \<le> t2" "t2 < t1 + 2000" "t2 \<le> t3" "t3 < t2 + 2000"
    and "\<not> skipped p1" "\<not> skipped p2" "\<not> skipped p3"
  shows "foldl (on_all takes) \<lparr> deployTimer = None, runs = [] \<rparr> [(t1, p1), (t2, p2), (t3, p3)]
           = \<lparr> deployTimer = Some (t3 + 2000), runs = [] \<rparr>"
  using assms by (simp add: on_all_change timer_due_idle timer_due_not_yet)

text \<open>
  C5. Three changes of watched files, each less than 2 seconds after the one before, start
  \<open>deploy\<close> once, 2 seconds after the last of them. The handler keeps no record of a run
  in progress: a further change that arrives once that run has started arms the timer as
  any change does, and a second run starts 2 seconds after it, whether or not the first
  has ended; the two overlap exactly when the first takes longer than that.
\<close>

theorem watch_debounce:
  assumes "t1 \<le> t2" "t2 < t1 + 2000" "t2 \<le> t3" "t3 < t2 + 2000"
    and "\<not> skipped p1" "\<not> skipped p2" "\<not> skipped p3"
  shows "watch takes [(t1, p1), (t2, p2), (t3, p3)] = [(t3 + 2000, t3 + 2000 + takes (t3 + 2000))]
   \<and> (t3 + 2000 \<le> t4 \<and> \<not> skipped p4 \<longrightarrow>
        watch takes [(t1, p1), (t2, p2), (t3, p3), (t4, p4)]
          = [(t3 + 2000, t3 + 2000 + takes (t3 + 2000)),
             (t4 + 2000, t4 + 2000 + takes (t4 + 2000))]
        \<and> concurrent (watch takes [(t1, p1), (t2, p2), (t3, p3), (t4, p4)])
          = (t4 + 2000 < t3 + 2000 + takes (t3 + 2000)))"
proof (intro conjI impI)
  show "watch takes [(t1, p1), (t2, p2), (t3, p3)] = [(t3 + 2000, t3 + 2000 + takes (t3 + 2000))]"
    using watch_three [OF assms, of takes] by (simp add: watch_def)
next
  assume late: "t3 + 2000 \<le> t4 \<and> \<not> skipped p4"
  have "foldl (on_all takes) \<lparr> deployTimer = None, runs = [] \<rparr>
          [(t1, p1), (t2, p2), (t3, p3), (t4, p4)]
        = on_all takes \<lparr> deployTimer = Some (t3 + 2000), runs = [] \<rparr> (t4, p4)"
    using watch_three [OF assms, of takes] by simp
  also have "\<dots> = \<lparr> deployTimer = Some (t4 + 2000),
                     runs = [(t3 + 2000, t3 + 2000 + takes (t3 + 2000))] \<rparr>"
    using late by (simp add: on_all_change timer_due_fires)
  finally show four: "watch takes [(t1, p1), (t2, p2), (t3, p3), (t4, p4)]
          = [(t3 + 2000, t3 + 2000 + takes (t3 + 2000)),
             (t4 + 2000, t4 + 2000 + takes (t4 + 2000))]"
    by (simp add: watch_def)
  show "concurrent (watch takes [(t1, p1), (t2, p2), (t3, p3), (t4, p4)])
          = (t4 + 2000 < t3 + 2000 + takes (t3 + 2000))"
    by (simp add: four)
qed

lemma not_skipped_examples: "\<not> skipped ''src/index.ts''" "\<not> skipped ''src/app.ts''"
  by (simp_all add: skipped_def startsWith_def)

theorem watch_debounce_witness:
  "watch ten_seconds [(0, ''src/index.ts''), (500, ''src/app.ts''), (1000, ''src/index.ts'')]
     = [(3000, 13000)]
   \<and> watch ten_seconds
       [(0, ''src/index.ts''), (500, ''src/app.ts''), (1000, ''src/index.ts''), (4000, ''src/app.ts'')]
     = [(3000, 13000), (6000, 16000)]"
  using watch_debounce [of 0 500 1000 "''src/index.ts''" "''src/app.ts''" "''src/index.ts''"
      ten_seconds 4000 "''src/app.ts''"]
  by (simp add: not_skipped_examples ten_seconds_def)

text \<open>
  Changes at 0, 0.5 and 1 seconds start a run at 3 seconds that takes 10 seconds; a
  change at 4 seconds, while it runs, starts a second run at 6 seconds.
\<close>

theorem watch_overlap_counterexample:
  "watch ten_seconds
     [(0, ''src/index.ts''), (500, ''src/app.ts''), (1000, ''src/index.ts''), (4000, ''src/app.ts'')]
     = [(3000, 13000), (6000, 16000)]
   \<and> concurrent (watch ten_seconds
     [(0, ''src/index.ts''), (500, ''src/app.ts''), (1000, ''src/index.ts''), (4000, ''src/app.ts'')])"
  by (simp add: watch_def on_all_def timer_due_def not_skipped_examples ten_seconds_def)

end
